theory Spec2Isabelle
  imports Complex_Main
begin

section \<open>The dual-pressure outlet controller of Artery.py\<close>

text \<open>
  The controller lives in \<^verbatim>\<open>temporal_hook\<close> (Artery.py, lines 191-253) and its helper
  \<^verbatim>\<open>beta\<close> (lines 175-185). Python floats are modelled by the real numbers: every
  comparison, sum, product and quotient of the source is the corresponding operation on
  \<^typ>\<open>real\<close>, and \<^verbatim>\<open>**\<close> on a positive base is \<open>powr\<close>. Rounding, overflow and
  underflow of binary64 are outside this model. What the model does keep is every place
  where the Python raises: a float division by zero, an index out of range, a missing
  key, a local variable read before it is bound.
\<close>

subsection \<open>Errors\<close>

text \<open>
  The exceptions the hook can raise. \<open>MeasurementError\<close> and \<open>ConfigurationError\<close> are the
  error classes named in section 7 of the specification; the source defines neither of
  them and no branch of the model produces them.
\<close>

datatype py_error =
    ZeroDivisionError
  | IndexError
  | KeyError
  | UnboundLocalError
  | ValueError
  | MeasurementError
  | ConfigurationError

subsection \<open>beta (lines 175-185)\<close>

definition beta :: "real \<Rightarrow> real \<Rightarrow> real" where
  "beta err p =
     (if p < 0 then
        (if err \<ge> 0.1 then 0.5 else 1 - 5 * err\<^sup>2)
      else
        (if err \<ge> 0.1 then 1.5 else 1 + 5 * err\<^sup>2))"

subsection \<open>Float power\<close>

text \<open>
  \<^verbatim>\<open>x ** y\<close> on floats: a zero base with a negative exponent raises
  \<^verbatim>\<open>ZeroDivisionError\<close>, a negative base with a fractional exponent has no float
  value (\<^verbatim>\<open>ValueError\<close>), and a positive base gives \<open>exp (y * ln x)\<close>. The hook only
  ever passes a base that is an absolute value.
\<close>

definition py_pow :: "real \<Rightarrow> real \<Rightarrow> py_error + real" where
  "py_pow x y =
     (if x > 0 then Inr (x powr y)
      else if x = 0 then
        (if y < 0 then Inl ZeroDivisionError else if y = 0 then Inr 1 else Inr 0)
      else if of_int \<lfloor>y\<rfloor> = y then Inr (x powi \<lfloor>y\<rfloor>)
      else Inl ValueError)"

subsection \<open>The per-outlet locals (loop body, lines 209-227)\<close>

text \<open>
  The names the loop body binds on one pass. They outlive the loop: Python keeps the
  values of the last pass, and lines 231-252 read them after the loop has ended.
\<close>

record outlet_locals =
  out_id :: int
  Q_out :: real
  Q_ideal :: real
  p_old :: real
  R_optimal :: real
  R_actual :: real
  M_err :: real
  R_err :: real
  E :: real

text \<open>
  Lines 212-227 for one outlet, given its target ratio \<open>area_ratio[i]\<close>, its boundary id,
  its stored pressure and the two measured fluxes. The three float divisions raise on a
  zero divisor, in the order the source performs them.
\<close>

definition outlet_vars :: "real \<Rightarrow> int \<Rightarrow> real \<Rightarrow> real \<Rightarrow> real \<Rightarrow> py_error + outlet_locals" where
  "outlet_vars ar oid p Qin Qout =
     (if Qin = 0 then Inl ZeroDivisionError
      else
        let Ract = Qout / Qin in
        if Ract = 0 then Inl ZeroDivisionError
        else
          let Merr = \<bar>ar / Ract\<bar>;
              Rerr = \<bar>ar - Ract\<bar>
          in
          if ar = 0 then Inl ZeroDivisionError
          else
            Inr \<lparr> out_id = oid, Q_out = Qout, Q_ideal = ar * Qin, p_old = p,
                  R_optimal = ar, R_actual = Ract, M_err = Merr, R_err = Rerr,
                  E = (if p < 0 then 1 + Rerr / ar else -1 * (1 + Rerr / ar)) \<rparr>)"

type_synonym ns_expressions = "int \<rightharpoonup> real"

text \<open>
  One pass of the loop of line 208: the flux of the outlet is measured (the external
  \<^verbatim>\<open>assemble\<close>, here the function \<open>flux\<close> from boundary ids to signed fluxes),
  \<^verbatim>\<open>area_ratio[i]\<close> is read (\<^verbatim>\<open>IndexError\<close> beyond the list), the stored pressure is
  read (\<^verbatim>\<open>KeyError\<close> for an id without an expression). The pass writes nothing to
  \<^verbatim>\<open>NS_expressions\<close>.
\<close>

definition loop_body ::
  "ns_expressions \<Rightarrow> (int \<Rightarrow> real) \<Rightarrow> real list \<Rightarrow> real \<Rightarrow> nat \<Rightarrow> int \<Rightarrow> py_error + outlet_locals" where
  "loop_body NS flux area_ratio Qin i oid =
     (let Qout = \<bar>flux oid\<bar> in
      if i \<ge> length area_ratio then Inl IndexError
      else
        case NS oid of
          None \<Rightarrow> Inl KeyError
        | Some p \<Rightarrow> outlet_vars (area_ratio ! i) oid p Qin Qout)"

text \<open>
  The loop \<^verbatim>\<open>for i, out_id in enumerate(id_out)\<close>. The last argument holds the locals
  of the previous pass (\<open>None\<close> before the first pass); the loop returns those of the last
  pass.
\<close>

fun outlet_loop ::
  "ns_expressions \<Rightarrow> (int \<Rightarrow> real) \<Rightarrow> real list \<Rightarrow> real \<Rightarrow> nat \<Rightarrow> int list
     \<Rightarrow> outlet_locals option \<Rightarrow> py_error + outlet_locals option" where
  "outlet_loop NS flux area_ratio Qin i [] prev = Inr prev"
| "outlet_loop NS flux area_ratio Qin i (oid # rest) prev =
     (case loop_body NS flux area_ratio Qin i oid of
        Inl e \<Rightarrow> Inl e
      | Inr l \<Rightarrow> outlet_loop NS flux area_ratio Qin (Suc i) rest (Some l))"

subsection \<open>The pressure update (lines 230-244)\<close>

text \<open>
  The value assigned to \<^verbatim>\<open>NS_expressions[out_id].p\<close>, computed from the locals that are
  bound when line 231 is reached.
\<close>

definition new_pressure :: "int \<Rightarrow> outlet_locals \<Rightarrow> py_error + real" where
  "new_pressure tstep l =
     (if R_optimal l = 0 then Inl ZeroDivisionError
      else
        let delta = (R_optimal l - R_actual l) / R_optimal l in
        if tstep < 100 then
          (let h = 0.1 in
           if p_old l > 1 \<and> delta < 0 then Inr (p_old l)
           else Inr (p_old l * (1 - delta * h)))
        else
          (if p_old l > 2 \<and> delta < 0 then Inr (p_old l)
           else
             case py_pow (M_err l) (E l) of
               Inl e \<Rightarrow> Inl e
             | Inr pw \<Rightarrow> Inr (p_old l * beta (R_err l) (p_old l) * pw)))"

text \<open>
  Lines 230-244 stand after the loop, at the indentation of the \<^verbatim>\<open>for\<close> statement:
  they run once, on the locals the last pass left behind, and write one entry of
  \<^verbatim>\<open>NS_expressions\<close>. With an empty \<^verbatim>\<open>id_out\<close> the name \<^verbatim>\<open>R_optimal\<close> is unbound.
\<close>

definition pressure_update ::
  "ns_expressions \<Rightarrow> int \<Rightarrow> outlet_locals option \<Rightarrow> py_error + ns_expressions" where
  "pressure_update NS tstep prev =
     (case prev of
        None \<Rightarrow> Inl UnboundLocalError
      | Some l \<Rightarrow>
          (case new_pressure tstep l of
             Inl e \<Rightarrow> Inl e
           | Inr v \<Rightarrow> Inr (NS(out_id l \<mapsto> v))))"

subsection \<open>The hook (lines 191-253)\<close>

text \<open>The guard of line 201.\<close>

definition sampled :: "int \<Rightarrow> bool" where
  "sampled tstep = (tstep > 2 \<and> tstep mod 1 = 0)"

text \<open>The body of the guarded block, lines 203-244.\<close>

definition flux_and_update ::
  "ns_expressions \<Rightarrow> (int \<Rightarrow> real) \<Rightarrow> int list \<Rightarrow> int list \<Rightarrow> real list \<Rightarrow> int
     \<Rightarrow> py_error + ns_expressions" where
  "flux_and_update NS flux id_in id_out area_ratio tstep =
     (case id_in of
        [] \<Rightarrow> Inl IndexError
      | i0 # _ \<Rightarrow>
          let Q_in = \<bar>flux i0\<bar> in
          (case outlet_loop NS flux area_ratio Q_in 0 id_out None of
             Inl e \<Rightarrow> Inl e
           | Inr prev \<Rightarrow> pressure_update NS tstep prev))"

text \<open>
  The controller part of \<^verbatim>\<open>temporal_hook\<close>: the outlet pressures after the call, and
  the exception that ended it, if any. An exception of the guarded block is raised
  before line 235, 237, 242 or 244 has assigned, so the pressures are then the old ones.
  When the block is skipped, the diagnostic print of lines 246-253 (rank 0, every tenth
  step) reads \<^verbatim>\<open>Q_outs\<close>, which is unbound. The inlet's \<^verbatim>\<open>set_t\<close>, the probes and the
  HDF5 output do not touch the outlet pressures and are left out.
\<close>

definition temporal_hook ::
  "ns_expressions \<Rightarrow> (int \<Rightarrow> real) \<Rightarrow> int list \<Rightarrow> int list \<Rightarrow> real list \<Rightarrow> int \<Rightarrow> nat
     \<Rightarrow> ns_expressions \<times> py_error option" where
  "temporal_hook NS flux id_in id_out area_ratio tstep rank =
     (if sampled tstep then
        (case flux_and_update NS flux id_in id_out area_ratio tstep of
           Inl e \<Rightarrow> (NS, Some e)
         | Inr NS' \<Rightarrow> (NS', None))
      else if rank = 0 \<and> tstep mod 10 = 0 then (NS, Some UnboundLocalError)
      else (NS, None))"

subsection \<open>The update of one outlet\<close>

text \<open>
  What lines 212-244 compute for one outlet from its target ratio, its stored pressure,
  the two measured fluxes and the step number: the operation the specification calls
  \<open>update\<close>. The boundary id plays no part in the value.
\<close>

definition update :: "real \<Rightarrow> real \<Rightarrow> real \<Rightarrow> real \<Rightarrow> int \<Rightarrow> py_error + real" where
  "update area_ratio pressure_old q_in q_out timestep =
     (case outlet_vars area_ratio 0 pressure_old q_in q_out of
        Inl e \<Rightarrow> Inl e
      | Inr l \<Rightarrow> new_pressure timestep l)"

subsection \<open>The two laws, in the specification's words\<close>

text \<open>
  Section 4.1 of the specification, steps 1 to 5, written down as it reads there (with
  the total division of the reals): the early-transient law with its clamp, and the
  steady-state law with its clamp. They are compared with \<open>update\<close> below.
\<close>

definition spec_linear_law :: "real \<Rightarrow> real \<Rightarrow> real \<Rightarrow> real \<Rightarrow> real" where
  "spec_linear_law area_ratio pressure_old q_in q_out =
     (let R_optimal = area_ratio;
          R_actual = q_out / q_in;
          delta = (R_optimal - R_actual) / R_optimal;
          h = 0.1
      in if pressure_old > 1 \<and> delta < 0 then pressure_old
         else pressure_old * (1 - delta * h))"

definition spec_dual_pressure_law :: "real \<Rightarrow> real \<Rightarrow> real \<Rightarrow> real \<Rightarrow> real" where
  "spec_dual_pressure_law area_ratio pressure_old q_in q_out =
     (let R_optimal = area_ratio;
          R_actual = q_out / q_in;
          R_err = \<bar>R_optimal - R_actual\<bar>;
          M_err = \<bar>R_optimal / R_actual\<bar>;
          delta = (R_optimal - R_actual) / R_optimal;
          E = (if pressure_old < 0 then 1 + R_err / R_optimal else - (1 + R_err / R_optimal))
      in if pressure_old > 2 \<and> delta < 0 then pressure_old
         else pressure_old * beta R_err pressure_old * M_err powr E)"

section \<open>Properties\<close>

subsection \<open>The locals of one pass\<close>

lemma outlet_vars_error:
  "ar = 0 \<or> qi = 0 \<or> qo = 0 \<Longrightarrow> outlet_vars ar oid p qi qo = Inl ZeroDivisionError"
  by (auto simp: outlet_vars_def Let_def)

lemma outlet_vars_value:
  "ar \<noteq> 0 \<Longrightarrow> qi \<noteq> 0 \<Longrightarrow> qo \<noteq> 0 \<Longrightarrow>
   outlet_vars ar oid p qi qo =
     Inr \<lparr> out_id = oid, Q_out = qo, Q_ideal = ar * qi, p_old = p,
           R_optimal = ar, R_actual = qo / qi, M_err = \<bar>ar / (qo / qi)\<bar>,
           R_err = \<bar>ar - qo / qi\<bar>,
           E = (if p < 0 then 1 + \<bar>ar - qo / qi\<bar> / ar else - (1 + \<bar>ar - qo / qi\<bar> / ar)) \<rparr>"
  by (simp add: outlet_vars_def Let_def)

lemma py_pow_pos: "0 < x \<Longrightarrow> py_pow x y = Inr (x powr y)"
  by (simp add: py_pow_def)

subsection \<open>The update of one outlet, case by case\<close>

lemma update_error:
  "ar = 0 \<or> qi = 0 \<or> qo = 0 \<Longrightarrow> update ar p qi qo t = Inl ZeroDivisionError"
  by (simp add: update_def outlet_vars_error)

lemma update_early:
  assumes "ar \<noteq> 0" "qi \<noteq> 0" "qo \<noteq> 0" "t < 100"
  shows "update ar p qi qo t = Inr (spec_linear_law ar p qi qo)"
  using assms
  by (simp add: update_def outlet_vars_value new_pressure_def spec_linear_law_def Let_def)

lemma update_steady:
  assumes "ar \<noteq> 0" "qi \<noteq> 0" "qo \<noteq> 0" "100 \<le> t"
  shows "update ar p qi qo t = Inr (spec_dual_pressure_law ar p qi qo)"
proof -
  have "0 < \<bar>ar / (qo / qi)\<bar>" using assms by simp
  then show ?thesis using assms
    by (simp add: update_def outlet_vars_value new_pressure_def spec_dual_pressure_law_def
        Let_def py_pow_pos not_less del: abs_divide)
qed

lemma update_cases:
  "update ar p qi qo t =
     (if ar = 0 \<or> qi = 0 \<or> qo = 0 then Inl ZeroDivisionError
      else if t < 100 then Inr (spec_linear_law ar p qi qo)
      else Inr (spec_dual_pressure_law ar p qi qo))"
proof (cases "ar = 0 \<or> qi = 0 \<or> qo = 0")
  case True
  then show ?thesis by (simp only: update_error if_True)
next
  case False
  then have nz: "ar \<noteq> 0" "qi \<noteq> 0" "qo \<noteq> 0" by simp_all
  show ?thesis
  proof (cases "t < 100")
    case True
    with nz show ?thesis by (simp add: update_early)
  next
    case False
    with nz show ?thesis by (simp add: update_steady)
  qed
qed

lemma update_any_out_id:
  "(case outlet_vars ar oid p qi qo of Inl e \<Rightarrow> Inl e | Inr l \<Rightarrow> new_pressure t l)
     = update ar p qi qo t"
proof (cases "ar = 0 \<or> qi = 0 \<or> qo = 0")
  case True
  then show ?thesis by (simp add: update_def outlet_vars_error)
next
  case False
  then have nz: "ar \<noteq> 0" "qi \<noteq> 0" "qo \<noteq> 0" by simp_all
  define l where "l = \<lparr> out_id = oid, Q_out = qo, Q_ideal = ar * qi, p_old = p,
           R_optimal = ar, R_actual = qo / qi, M_err = \<bar>ar / (qo / qi)\<bar>,
           R_err = \<bar>ar - qo / qi\<bar>,
           E = (if p < 0 then 1 + \<bar>ar - qo / qi\<bar> / ar else - (1 + \<bar>ar - qo / qi\<bar> / ar)) \<rparr>"
  have l: "outlet_vars ar oid p qi qo = Inr l"
    unfolding l_def by (rule outlet_vars_value [OF nz])
  have "outlet_vars ar 0 p qi qo = Inr (l\<lparr>out_id := 0\<rparr>)"
    unfolding l_def by (simp add: outlet_vars_value [OF nz])
  moreover have "new_pressure t (l\<lparr>out_id := 0\<rparr>) = new_pressure t l"
    by (simp add: new_pressure_def Let_def cong: if_cong sum.case_cong)
  ultimately show ?thesis using l by (simp add: update_def)
qed

subsection \<open>The loop and the hook\<close>

lemma outlet_vars_out_id: "outlet_vars ar oid p qi qo = Inr l \<Longrightarrow> out_id l = oid"
  by (auto simp: outlet_vars_def Let_def split: if_splits)

lemma loop_body_out_id: "loop_body NS flux area_ratio Qin i oid = Inr l \<Longrightarrow> out_id l = oid"
  by (auto simp: loop_body_def Let_def outlet_vars_out_id split: if_splits option.splits)

lemma outlet_loop_out_id:
  "outlet_loop NS flux area_ratio Qin i ids prev = Inr (Some l) \<Longrightarrow> ids \<noteq> [] \<Longrightarrow>
   out_id l = last ids"
proof (induction ids arbitrary: i prev)
  case Nil
  then show ?case by simp
next
  case (Cons oid rest)
  from Cons.prems(1) obtain l' where b: "loop_body NS flux area_ratio Qin i oid = Inr l'"
    and r: "outlet_loop NS flux area_ratio Qin (Suc i) rest (Some l') = Inr (Some l)"
    by (auto split: sum.splits)
  show ?case
  proof (cases "rest = []")
    case True
    with r b show ?thesis by (simp add: loop_body_out_id)
  next
    case False
    with Cons.IH [OF r] show ?thesis by simp
  qed
qed

lemma outlet_loop_None:
  "outlet_loop NS flux area_ratio Qin i ids prev = Inr None \<Longrightarrow> ids = [] \<and> prev = None"
  by (induction ids arbitrary: i prev) (auto split: sum.splits)

lemma outlet_loop_snoc:
  "outlet_loop NS flux area_ratio Qin i (ids @ [k]) prev =
     (case outlet_loop NS flux area_ratio Qin i ids prev of
        Inl e \<Rightarrow> Inl e
      | Inr _ \<Rightarrow>
          (case loop_body NS flux area_ratio Qin (i + length ids) k of
             Inl e \<Rightarrow> Inl e
           | Inr l \<Rightarrow> Inr (Some l)))"
  by (induction ids arbitrary: i prev) (auto split: sum.splits)

text \<open>A run of the guarded block that does not raise writes one entry: the last outlet's.\<close>

lemma flux_and_update_frame:
  assumes "flux_and_update NS flux id_in id_out area_ratio tstep = Inr NS'"
  shows "id_out \<noteq> [] \<and> (\<exists>v. NS' = NS(last id_out \<mapsto> v))"
proof -
  from assms obtain i0 prev where
    lp: "outlet_loop NS flux area_ratio \<bar>flux i0\<bar> 0 id_out None = Inr prev"
    and pu: "pressure_update NS tstep prev = Inr NS'"
    by (auto simp: flux_and_update_def Let_def split: list.splits sum.splits)
  from pu obtain l v where prev: "prev = Some l" and ns: "NS' = NS(out_id l \<mapsto> v)"
    by (auto simp: pressure_update_def split: option.splits sum.splits)
  have ne: "id_out \<noteq> []"
    using lp prev by auto
  from outlet_loop_out_id [OF lp [unfolded prev] ne] ns ne show ?thesis
    by auto
qed

subsection \<open>beta\<close>

lemma beta_neg_large: "p < 0 \<Longrightarrow> err \<ge> 0.1 \<Longrightarrow> beta err p = 0.5"
  by (simp add: beta_def)

lemma beta_neg_small: "p < 0 \<Longrightarrow> err < 0.1 \<Longrightarrow> beta err p = 1 - 5 * err\<^sup>2"
  by (simp add: beta_def)

lemma beta_pos_large: "p \<ge> 0 \<Longrightarrow> err \<ge> 0.1 \<Longrightarrow> beta err p = 1.5"
  by (simp add: beta_def)

lemma beta_pos_small: "p \<ge> 0 \<Longrightarrow> err < 0.1 \<Longrightarrow> beta err p = 1 + 5 * err\<^sup>2"
  by (simp add: beta_def)


subsection \<open>The value of the worked example\<close>

text \<open>\<open>1.5 * 1.5 powr (-4/3)\<close> is the reciprocal of the cube root of 1.5, about 0.87358.\<close>

lemma cube_root_two_thirds:
  fixes r :: real
  assumes "r = (3/2) powr (- (1/3))"
  shows "0.8735 < r \<and> r < 0.8736"
proof -
  have rpos: "0 < r" using assms by simp
  have "r ^ 3 = (3/2) powr (- 1)"
    unfolding assms by (simp add: powr_power)
  also have "\<dots> = 2/3" by (simp add: powr_minus_divide)
  finally have c: "r ^ 3 = 2/3" .
  have lo: "0.8735 < r"
  proof (rule ccontr)
    assume "\<not> 0.8735 < r"
    then have "r \<le> 0.8735" by simp
    then have "r ^ 3 \<le> 0.8735 ^ 3" using rpos by (intro power_mono) auto
    then show False using c by (simp add: power3_eq_cube)
  qed
  have hi: "r < 0.8736"
  proof (rule ccontr)
    assume "\<not> r < 0.8736"
    then have "0.8736 \<le> r" by simp
    then have "0.8736 ^ 3 \<le> r ^ 3" by (intro power_mono) auto
    then show False using c by (simp add: power3_eq_cube)
  qed
  show ?thesis using lo hi by simp
qed

lemma dual_example_value:
  "(3/2) * (3/2) powr (- (4/3)) = (3/2) powr (- (1/3) :: real)"
proof -
  have "(3/2) powr 1 * (3/2) powr (- (4/3)) = (3/2) powr (1 + - (4/3) :: real)"
    by (rule powr_add [symmetric])
  then show ?thesis by simp
qed

lemma dual_example_bounds:
  "0.8735 < (3/2) * (3/2) powr (- (4/3) :: real) \<and> (3/2) * (3/2) powr (- (4/3) :: real) < 0.8736"
  using cube_root_two_thirds [OF refl] by (simp only: dual_example_value)

text \<open>
  Whatever error magnitude \<open>beta\<close> is given at the pressure 1.0, the steady-state value
  with \<open>M_err = 1.5\<close> and \<open>E = -4/3\<close> stays above 0.58.
\<close>

lemma worked_example_any_beta:
  "0.58 < 1.0 * beta err 1.0 * 1.5 powr (- (4/3))"
proof -
  define r :: real where "r = (3/2) powr (- (4/3))"
  have rpos: "0 < r" by (simp add: r_def)
  have "r ^ 3 = (3/2) powr (- 4)"
    unfolding r_def by (simp add: powr_power)
  also have "\<dots> = 1 / (3/2) powr 4" by (simp only: powr_minus_divide)
  also have "(3/2) powr 4 = (81/16 :: real)"
  proof -
    have "(3/2) powr (4::real) = (3/2) powr (of_nat 4)" by simp
    also have "\<dots> = (3/2 :: real) ^ 4" by (rule powr_realpow) simp
    also have "\<dots> = 81/16" by (simp add: power4_eq_xxxx)
    finally show ?thesis .
  qed
  finally have c: "r ^ 3 = 16/81" by simp
  have lo: "0.58 < r"
  proof (rule ccontr)
    assume "\<not> 0.58 < r"
    then have "r \<le> 0.58" by simp
    then have "r ^ 3 \<le> 0.58 ^ 3" using rpos by (intro power_mono) auto
    then show False using c by (simp add: power3_eq_cube)
  qed
  have b: "1 \<le> beta err 1" by (simp add: beta_def)
  have "1 * r \<le> beta err 1 * r"
    using b rpos by (intro mult_right_mono) simp_all
  then have "r \<le> beta err 1 * r" by (simp only: mult_1)
  with lo have "0.58 < beta err 1 * r" by (rule less_le_trans)
  then show ?thesis by (simp add: r_def)
qed

subsection \<open>A run of the hook on two outlets\<close>

text \<open>
  Inlet 0 with flux -10, outlets 1 and 2 with flux 5 each, targets 0.4 and 0.6, stored
  pressures 0.4 and 0.6, step 3: the guarded block writes 0.59 to outlet 2 and nothing to
  outlet 1.
\<close>

lemma example_flux_and_update:
  "flux_and_update [1 \<mapsto> 0.4, 2 \<mapsto> 0.6] (\<lambda>b. if b = 0 then - 10 else 5) [0] [1, 2] [0.4, 0.6] 3
     = Inr [1 \<mapsto> 0.4, 2 \<mapsto> 0.59]"
  by (simp add: flux_and_update_def loop_body_def outlet_vars_value
      pressure_update_def new_pressure_def Let_def)

section \<open>The claims\<close>

text \<open>
  Claim C6. \<open>beta err p\<close> is exactly: 0.5 when \<open>p < 0\<close> and \<open>err \<ge> 0.1\<close>;
  \<open>1 - 5 err\<^sup>2\<close> when \<open>p < 0\<close> and \<open>err < 0.1\<close>; 1.5 when \<open>p \<ge> 0\<close> and \<open>err \<ge> 0.1\<close>;
  \<open>1 + 5 err\<^sup>2\<close> when \<open>p \<ge> 0\<close> and \<open>err < 0.1\<close>. At \<open>p = -1\<close> the two sides of the
  boundary are \<open>beta 0.0999 (-1) = 1 - 5 * 0.0999\<^sup>2\<close> and \<open>beta 0.1 (-1) = 0.5\<close>, and
  \<open>beta\<close> is not continuous in \<open>err\<close> at 0.1.
\<close>

theorem beta_four_cases_and_jump:
  "beta err p =
     (if p < 0 \<and> err \<ge> 0.1 then 0.5
      else if p < 0 \<and> err < 0.1 then 1 - 5 * err\<^sup>2
      else if p \<ge> 0 \<and> err \<ge> 0.1 then 1.5
      else 1 + 5 * err\<^sup>2)
   \<and> beta 0.0999 (- 1) = 1 - 5 * 0.0999\<^sup>2
   \<and> beta 0.1 (- 1) = 0.5
   \<and> \<not> isCont (\<lambda>e. beta e (- 1)) 0.1"
proof -
  have cases4: "beta err p =
     (if p < 0 \<and> err \<ge> 0.1 then 0.5
      else if p < 0 \<and> err < 0.1 then 1 - 5 * err\<^sup>2
      else if p \<ge> 0 \<and> err \<ge> 0.1 then 1.5
      else 1 + 5 * err\<^sup>2)"
    by (simp add: beta_def)
  have below: "beta 0.0999 (- 1) = 1 - 5 * 0.0999\<^sup>2"
    by (simp add: beta_def)
  have at: "beta 0.1 (- 1) = 0.5"
    by (simp add: beta_def)
  have jump: "\<not> isCont (\<lambda>e. beta e (- 1)) 0.1"
  proof
    assume c: "isCont (\<lambda>e. beta e (- 1)) 0.1"
    then have "(\<lambda>e. beta e (- 1)) \<midarrow>0.1\<rightarrow> beta 0.1 (- 1)"
      by (simp add: isCont_def)
    from LIM_D [OF this, of "0.4"]
    obtain d where d: "d > 0"
      and near: "\<And>x. x \<noteq> 0.1 \<Longrightarrow> \<bar>x - 0.1\<bar> < d \<Longrightarrow> \<bar>beta x (- 1) - beta 0.1 (- 1)\<bar> < 0.4"
      by auto
    define x :: real where "x = max 0 (0.1 - d / 2)"
    have x0: "0 \<le> x" and x1: "x < 0.1" and xd: "\<bar>x - 0.1\<bar> < d"
      using d by (auto simp: x_def max_def)
    have "x\<^sup>2 \<le> 0.1\<^sup>2"
      using x0 x1 by (intro power_mono) auto
    then have "beta x (- 1) \<ge> 0.95"
      using x1 by (simp add: beta_def power2_eq_square)
    with at near [OF _ xd] x1 show False
      by simp
  qed
  from cases4 below at jump show ?thesis
    by blast
qed

text \<open>
  Claim C3. For every input the regime depends on the step number alone: below step 100
  the update is the linear relaxation law (or its clamp), from step 100 on it is the
  dual-pressure law (or its clamp); the threshold is a single comparison, so the switch
  happens once, at step 100, and no later step returns to the linear law. An input with a
  zero divisor (\<open>area_ratio\<close>, \<open>q_in\<close> or \<open>q_out\<close>) raises in both regimes. At the input
  0.3, 1, 10, 2 the two sides of the boundary, steps 99 and 100, give different values.
\<close>

theorem update_regime_by_timestep:
  "update area_ratio pressure_old q_in q_out timestep =
     (if area_ratio = 0 \<or> q_in = 0 \<or> q_out = 0 then Inl ZeroDivisionError
      else if timestep < 100 then Inr (spec_linear_law area_ratio pressure_old q_in q_out)
      else Inr (spec_dual_pressure_law area_ratio pressure_old q_in q_out))
   \<and> update 0.3 1 10 2 99 = Inr (1 * (1 - (1/3) * 0.1))
   \<and> update 0.3 1 10 2 100 = Inr (1 * beta 0.1 1 * 1.5 powr (- (4/3)))
   \<and> update 0.3 1 10 2 99 \<noteq> update 0.3 1 10 2 100"
proof -
  have a: "update 0.3 1 10 2 99 = Inr (29/30)"
    by (simp add: update_early spec_linear_law_def Let_def)
  have b: "update 0.3 1 10 2 100 = Inr ((3/2) * (3/2) powr (- (4/3)))"
    by (simp add: update_steady spec_dual_pressure_law_def Let_def beta_def)
  have c: "(3/2) * (3/2) powr (- (4/3)) \<noteq> (29/30 :: real)"
    using dual_example_bounds by simp
  have d: "beta 0.1 1 = 3/2" by (simp add: beta_def)
  show ?thesis
  proof (intro conjI)
    show "update area_ratio pressure_old q_in q_out timestep =
       (if area_ratio = 0 \<or> q_in = 0 \<or> q_out = 0 then Inl ZeroDivisionError
        else if timestep < 100 then Inr (spec_linear_law area_ratio pressure_old q_in q_out)
        else Inr (spec_dual_pressure_law area_ratio pressure_old q_in q_out))"
      by (rule update_cases)
    show "update 0.3 1 10 2 99 = Inr (1 * (1 - (1/3) * 0.1))"
      unfolding a by simp
    show "update 0.3 1 10 2 100 = Inr (1 * beta 0.1 1 * 1.5 powr (- (4/3)))"
      unfolding b d by simp
    show "update 0.3 1 10 2 99 \<noteq> update 0.3 1 10 2 100"
      unfolding a b using c by simp
  qed
qed



text \<open>
  Claim C7. Whenever the loop body binds its locals for an outlet, \<open>R_optimal\<close> is the
  outlet's \<open>area_ratio\<close>, \<open>R_err = |R_optimal - R_actual|\<close>, and the exponent is
  \<open>E = 1 + R_err / R_optimal\<close> for a negative old pressure and
  \<open>E = -(1 + R_err / R_optimal)\<close> otherwise; this \<open>E\<close> is the exponent of the steady-state
  law, which from step 100 on (outside the clamp) returns
  \<open>pressure_old * beta R_err pressure_old * M_err powr E\<close>.
\<close>

theorem exponent_E_by_pressure_sign:
  assumes "outlet_vars area_ratio oid pressure_old q_in q_out = Inr l"
  shows "R_optimal l = area_ratio
       \<and> R_actual l = q_out / q_in
       \<and> R_err l = \<bar>R_optimal l - R_actual l\<bar>
       \<and> E l = (if pressure_old < 0 then 1 + R_err l / R_optimal l
                else - (1 + R_err l / R_optimal l))
       \<and> (\<forall>timestep. 100 \<le> timestep \<and> \<not> (pressure_old > 2 \<and> (R_optimal l - R_actual l) / R_optimal l < 0)
            \<longrightarrow> update area_ratio pressure_old q_in q_out timestep
                  = Inr (pressure_old * beta (R_err l) pressure_old * M_err l powr E l))"
proof -
  have nz: "area_ratio \<noteq> 0" "q_in \<noteq> 0" "q_out \<noteq> 0"
    using assms outlet_vars_error [of area_ratio q_in q_out oid pressure_old] by auto
  from assms outlet_vars_value [OF nz, of oid pressure_old]
  have l: "l = \<lparr> out_id = oid, Q_out = q_out, Q_ideal = area_ratio * q_in, p_old = pressure_old,
           R_optimal = area_ratio, R_actual = q_out / q_in, M_err = \<bar>area_ratio / (q_out / q_in)\<bar>,
           R_err = \<bar>area_ratio - q_out / q_in\<bar>,
           E = (if pressure_old < 0 then 1 + \<bar>area_ratio - q_out / q_in\<bar> / area_ratio
                else - (1 + \<bar>area_ratio - q_out / q_in\<bar> / area_ratio)) \<rparr>"
    by simp
  have fields: "R_optimal l = area_ratio" "R_actual l = q_out / q_in"
    "R_err l = \<bar>area_ratio - q_out / q_in\<bar>" "M_err l = \<bar>area_ratio / (q_out / q_in)\<bar>"
    "E l = (if pressure_old < 0 then 1 + \<bar>area_ratio - q_out / q_in\<bar> / area_ratio
                else - (1 + \<bar>area_ratio - q_out / q_in\<bar> / area_ratio))"
    unfolding l by simp_all
  have law: "update area_ratio pressure_old q_in q_out timestep
                  = Inr (pressure_old * beta (R_err l) pressure_old * M_err l powr E l)"
    if "100 \<le> timestep" "\<not> (pressure_old > 2 \<and> (R_optimal l - R_actual l) / R_optimal l < 0)"
    for timestep
  proof -
    have "update area_ratio pressure_old q_in q_out timestep
        = Inr (spec_dual_pressure_law area_ratio pressure_old q_in q_out)"
      using nz that(1) by (rule update_steady)
    also have "spec_dual_pressure_law area_ratio pressure_old q_in q_out =
       (if pressure_old > 2 \<and> (R_optimal l - R_actual l) / R_optimal l < 0 then pressure_old
        else pressure_old * beta (R_err l) pressure_old * M_err l powr E l)"
      unfolding fields by (simp only: spec_dual_pressure_law_def Let_def)
    also have "\<dots> = pressure_old * beta (R_err l) pressure_old * M_err l powr E l"
      using that(2) by (simp only: if_False)
    finally show ?thesis .
  qed
  show ?thesis
  proof (intro conjI allI impI)
    show "R_optimal l = area_ratio" by (rule fields(1))
    show "R_actual l = q_out / q_in" by (rule fields(2))
    show "R_err l = \<bar>R_optimal l - R_actual l\<bar>" by (simp only: fields)
    show "E l = (if pressure_old < 0 then 1 + R_err l / R_optimal l
                else - (1 + R_err l / R_optimal l))"
      by (simp only: fields)
  next
    fix timestep :: int
    assume "100 \<le> timestep \<and> \<not> (pressure_old > 2 \<and> (R_optimal l - R_actual l) / R_optimal l < 0)"
    then show "update area_ratio pressure_old q_in q_out timestep
                  = Inr (pressure_old * beta (R_err l) pressure_old * M_err l powr E l)"
      using law by blast
  qed
qed

theorem exponent_E_by_pressure_sign_witness:
  "(\<exists>l. outlet_vars 0.3 7 1 10 2 = Inr l \<and> E l = - (4/3)
        \<and> update 0.3 1 10 2 200 = Inr (1 * beta (R_err l) 1 * M_err l powr E l))
   \<and> (\<exists>l. outlet_vars 0.3 7 (- 1) 10 2 = Inr l \<and> E l = 4/3
        \<and> update 0.3 (- 1) 10 2 200 = Inr (- 1 * beta (R_err l) (- 1) * M_err l powr E l))"
proof -
  obtain l where l: "outlet_vars 0.3 7 1 10 2 = Inr l"
    using outlet_vars_value [of "0.3" 10 2 7 1] by simp
  note pos = exponent_E_by_pressure_sign [OF l]
  from pos have ro: "R_optimal l = 0.3" and ra: "R_actual l = 2 / 10"
    and re: "R_err l = \<bar>R_optimal l - R_actual l\<bar>"
    and e: "E l = (if (1::real) < 0 then 1 + R_err l / R_optimal l
                   else - (1 + R_err l / R_optimal l))"
    by blast+
  have el: "E l = - (4/3)"
    unfolding e re ro ra by simp
  have "(100::int) \<le> 200 \<and> \<not> ((1::real) > 2 \<and> (R_optimal l - R_actual l) / R_optimal l < 0)"
    by simp
  with pos have ul: "update 0.3 1 10 2 200 = Inr (1 * beta (R_err l) 1 * M_err l powr E l)"
    by blast
  obtain m where m: "outlet_vars 0.3 7 (- 1) 10 2 = Inr m"
    using outlet_vars_value [of "0.3" 10 2 7 "- 1"] by simp
  note neg = exponent_E_by_pressure_sign [OF m]
  from neg have ro': "R_optimal m = 0.3" and ra': "R_actual m = 2 / 10"
    and re': "R_err m = \<bar>R_optimal m - R_actual m\<bar>"
    and e': "E m = (if (- 1::real) < 0 then 1 + R_err m / R_optimal m
                   else - (1 + R_err m / R_optimal m))"
    by blast+
  have em: "E m = 4/3"
    unfolding e' re' ro' ra' by simp
  have "(100::int) \<le> 200 \<and> \<not> ((- 1::real) > 2 \<and> (R_optimal m - R_actual m) / R_optimal m < 0)"
    by simp
  with neg have um: "update 0.3 (- 1) 10 2 200 = Inr (- 1 * beta (R_err m) (- 1) * M_err m powr E m)"
    by blast
  from l el ul m em um show ?thesis by blast
qed

text \<open>
  Claim C8. Anti-overshoot clamp: whenever \<open>delta = (R_optimal - R_actual) / R_optimal\<close> is
  negative and the old pressure exceeds the threshold of the regime (1 before step 100,
  2 from step 100 on), the update returns the old pressure unchanged. A negative \<open>delta\<close>
  needs a nonzero \<open>area_ratio\<close>, \<open>q_in\<close> and \<open>q_out\<close>, so no division raises here. The
  witness has \<open>pressure_old = 1.5\<close>, \<open>delta = -0.01\<close> and step 50.
\<close>

theorem clamp_holds_pressure:
  assumes "(area_ratio - q_out / q_in) / area_ratio < 0"
    and "(timestep < 100 \<and> pressure_old > 1) \<or> (timestep \<ge> 100 \<and> pressure_old > 2)"
  shows "update area_ratio pressure_old q_in q_out timestep = Inr pressure_old"
proof -
  have ar: "area_ratio \<noteq> 0" using assms(1) by auto
  have qi: "q_in \<noteq> 0" using assms(1) ar by auto
  have qo: "q_out \<noteq> 0" using assms(1) ar by auto
  from assms(2) show ?thesis
  proof
    assume "timestep < 100 \<and> pressure_old > 1"
    with assms(1) ar qi qo show ?thesis
      by (simp add: update_early spec_linear_law_def Let_def)
  next
    assume "timestep \<ge> 100 \<and> pressure_old > 2"
    with assms(1) ar qi qo show ?thesis
      by (simp add: update_steady spec_dual_pressure_law_def Let_def)
  qed
qed

theorem clamp_holds_pressure_witness:
  "(0.5 - 0.505 / 1) / 0.5 = (- 0.01 :: real) \<and> update 0.5 1.5 1 0.505 50 = Inr 1.5
   \<and> update 0.5 2.5 1 0.505 100 = Inr 2.5"
  using clamp_holds_pressure [of "0.5" "0.505" 1 50 "1.5"]
    clamp_holds_pressure [of "0.5" "0.505" 1 100 "2.5"]
  by simp

text \<open>
  Claim C4, as the code has it. The source defines no \<open>MeasurementError\<close> and no
  \<open>ConfigurationError\<close>: with \<open>q_in = 0\<close> the float division \<open>Q_out / Q_in\<close> raises
  \<open>ZeroDivisionError\<close>, and with \<open>area_ratio = 0\<close> one of the divisions
  \<open>R_optimal / R_actual\<close>, \<open>R_err / R_optimal\<close> (or already \<open>Q_out / Q_in\<close>) does. In both
  cases the update returns no pressure at all.
\<close>

theorem zero_inputs_raise_ZeroDivisionError:
  "update area_ratio pressure_old 0 q_out timestep = Inl ZeroDivisionError
   \<and> update 0 pressure_old q_in q_out timestep = Inl ZeroDivisionError"
  by (simp add: update_error)

text \<open>
  Claim C4 as stated fails: at \<open>q_in = 0\<close> the update does not raise \<open>MeasurementError\<close>,
  and at \<open>area_ratio = 0\<close> it does not raise \<open>ConfigurationError\<close>.
\<close>

theorem no_MeasurementError_counterexample:
  "\<not> (update 0.3 1 0 2 200 = Inl MeasurementError \<and> update 0 1 10 2 200 = Inl ConfigurationError)"
  by (simp add: update_error)






text \<open>
  Claim C9. The guard of line 201 holds exactly when \<open>tstep > 2\<close>, its modulo condition
  \<open>tstep mod 1 = 0\<close> holding at every step. At every step \<open>\<le> 2\<close> the hook leaves all
  outlet pressures as they were; at every step \<open>> 2\<close> it runs the flux measurement and
  the pressure update of lines 203-244.
\<close>

theorem sampling_cadence:
  "(sampled tstep \<longleftrightarrow> tstep > 2)
   \<and> tstep mod 1 = 0
   \<and> (tstep \<le> 2 \<longrightarrow> fst (temporal_hook NS flux id_in id_out area_ratio tstep rank) = NS)
   \<and> (tstep > 2 \<longrightarrow>
        temporal_hook NS flux id_in id_out area_ratio tstep rank =
          (case flux_and_update NS flux id_in id_out area_ratio tstep of
             Inl e \<Rightarrow> (NS, Some e)
           | Inr NS' \<Rightarrow> (NS', None)))"
  by (simp add: temporal_hook_def sampled_def)

theorem sampling_cadence_witness:
  "fst (temporal_hook [1 \<mapsto> 0.4, 2 \<mapsto> 0.6] (\<lambda>b. if b = 0 then - 10 else 5) [0] [1, 2] [0.4, 0.6] 2 0)
     = [1 \<mapsto> 0.4, 2 \<mapsto> 0.6]
   \<and> temporal_hook [1 \<mapsto> 0.4, 2 \<mapsto> 0.6] (\<lambda>b. if b = 0 then - 10 else 5) [0] [1, 2] [0.4, 0.6] 3 0
     = ([1 \<mapsto> 0.4, 2 \<mapsto> 0.59], None)"
proof -
  define NS :: ns_expressions where "NS = [1 \<mapsto> 0.4, 2 \<mapsto> 0.6]"
  define flux :: "int \<Rightarrow> real" where "flux = (\<lambda>b. if b = 0 then - 10 else 5)"
  define ratios :: "real list" where "ratios = [0.4, 0.6]"
  have run: "flux_and_update NS flux [0] [1, 2] ratios 3 = Inr [1 \<mapsto> 0.4, 2 \<mapsto> 0.59]"
    unfolding NS_def flux_def ratios_def by (rule example_flux_and_update)
  have skipped: "fst (temporal_hook NS flux [0] [1, 2] ratios 2 0) = NS"
    using sampling_cadence [of 2 NS flux "[0]" "[1, 2]" ratios 0] by simp
  have performed: "temporal_hook NS flux [0] [1, 2] ratios 3 0 = ([1 \<mapsto> 0.4, 2 \<mapsto> 0.59], None)"
    using sampling_cadence [of 3 NS flux "[0]" "[1, 2]" ratios 0] by (simp add: run)
  from skipped performed show ?thesis
    unfolding NS_def flux_def ratios_def by (rule conjI)
qed

text \<open>
  Claim C1 asks that on a sampled step every outlet's pressure is adjusted from its own
  ratio, flux and old pressure. The hook run below has two outlets that both miss their
  targets at step 50: the update of outlet 1 alone would give 0.41 and that of outlet 2
  gives 0.59, yet the hook stores 0.59 for outlet 2 and leaves outlet 1 at 0.4, because
  lines 230-244 stand outside the loop and see only the locals of the last pass.
\<close>

theorem hook_updates_last_outlet_only:
  "temporal_hook [1 \<mapsto> 0.4, 2 \<mapsto> 0.6] (\<lambda>b. if b = 0 then - 10 else 5) [0] [1, 2] [0.4, 0.6] 50 0
     = ([1 \<mapsto> 0.4, 2 \<mapsto> 0.59], None)
   \<and> update 0.4 0.4 10 5 50 = Inr 0.41
   \<and> update 0.6 0.6 10 5 50 = Inr 0.59"
proof -
  have "temporal_hook [1 \<mapsto> 0.4, 2 \<mapsto> 0.6] (\<lambda>b. if b = 0 then - 10 else 5) [0] [1, 2] [0.4, 0.6] 50 0
     = ([1 \<mapsto> 0.4, 2 \<mapsto> 0.59], None)"
    by (simp add: temporal_hook_def sampled_def flux_and_update_def loop_body_def outlet_vars_value
      pressure_update_def new_pressure_def Let_def)
  moreover have "update 0.4 0.4 10 5 50 = Inr 0.41"
    by (simp add: update_early spec_linear_law_def Let_def)
  moreover have "update 0.6 0.6 10 5 50 = Inr 0.59"
    by (simp add: update_early spec_linear_law_def Let_def)
  ultimately show ?thesis by blast
qed

subsection \<open>Further properties of the hook\<close>

text \<open>
  Property X1. Whatever the step, the fluxes and the rank, the hook leaves the pressure
  of every boundary id other than the last element of \<open>id_out\<close> as it was.
\<close>

theorem temporal_hook_frame:
  assumes "k \<noteq> last id_out"
  shows "fst (temporal_hook NS flux id_in id_out area_ratio tstep rank) k = NS k"
proof (cases "flux_and_update NS flux id_in id_out area_ratio tstep")
  case (Inl e)
  then show ?thesis by (simp add: temporal_hook_def)
next
  case (Inr NS')
  from flux_and_update_frame [OF Inr] obtain v where "NS' = NS(last id_out \<mapsto> v)"
    by blast
  with Inr assms show ?thesis by (simp add: temporal_hook_def)
qed

theorem temporal_hook_frame_witness:
  "fst (temporal_hook [1 \<mapsto> 0.4, 2 \<mapsto> 0.6] (\<lambda>b. if b = 0 then - 10 else 5) [0] [1, 2] [0.4, 0.6] 50 0) 1
     = Some 0.4"
  using temporal_hook_frame [of 1 "[1, 2]" "[1 \<mapsto> 0.4, 2 \<mapsto> 0.6]"
      "\<lambda>b. if b = 0 then - 10 else 5" "[0]" "[0.4, 0.6]" 50 0]
  by simp

text \<open>
  Property X2. On a step \<open>> 2\<close>, when the passes over the earlier outlets do not raise, the
  hook does to the last outlet what \<open>update\<close> says, with the inlet's flux magnitude as
  \<open>q_in\<close> and the outlet's as \<open>q_out\<close>: it stores the returned pressure, or raises the
  returned error and stores nothing.
\<close>

theorem temporal_hook_last_outlet:
  assumes t: "tstep > 2"
    and earlier: "outlet_loop NS flux area_ratio \<bar>flux i0\<bar> 0 ids None = Inr prev"
    and len: "length ids < length area_ratio"
    and stored: "NS k = Some p"
  shows "temporal_hook NS flux (i0 # ins) (ids @ [k]) area_ratio tstep rank =
     (case update (area_ratio ! length ids) p \<bar>flux i0\<bar> \<bar>flux k\<bar> tstep of
        Inl e \<Rightarrow> (NS, Some e)
      | Inr v \<Rightarrow> (NS(k \<mapsto> v), None))"
proof -
  have body: "loop_body NS flux area_ratio (\<bar>flux i0\<bar>) (length ids) k =
      outlet_vars (area_ratio ! length ids) k p \<bar>flux i0\<bar> \<bar>flux k\<bar>"
    using len stored by (simp add: loop_body_def)
  show ?thesis
  proof (cases "outlet_vars (area_ratio ! length ids) k p \<bar>flux i0\<bar> \<bar>flux k\<bar>")
    case (Inl e)
    with update_any_out_id [where ar = "area_ratio ! length ids" and oid = k and p = p
        and qi = "\<bar>flux i0\<bar>" and qo = "\<bar>flux k\<bar>" and t = tstep]
    have "update (area_ratio ! length ids) p \<bar>flux i0\<bar> \<bar>flux k\<bar> tstep = Inl e" by simp
    with Inl t earlier body show ?thesis
      by (simp add: temporal_hook_def sampled_def flux_and_update_def outlet_loop_snoc)
  next
    case (Inr l)
    with update_any_out_id [where ar = "area_ratio ! length ids" and oid = k and p = p
        and qi = "\<bar>flux i0\<bar>" and qo = "\<bar>flux k\<bar>" and t = tstep]
    have u: "update (area_ratio ! length ids) p \<bar>flux i0\<bar> \<bar>flux k\<bar> tstep = new_pressure tstep l"
      by simp
    have "out_id l = k" using Inr by (rule outlet_vars_out_id)
    with Inr t earlier body u show ?thesis
      by (simp add: temporal_hook_def sampled_def flux_and_update_def outlet_loop_snoc
          pressure_update_def split: sum.splits)
  qed
qed

theorem temporal_hook_last_outlet_witness:
  "temporal_hook [1 \<mapsto> 0.4, 2 \<mapsto> 0.6] (\<lambda>b. if b = 0 then - 10 else 5) [0] ([1] @ [2]) [0.4, 0.6] 50 0
     = ([1 \<mapsto> 0.4, 2 \<mapsto> 0.59], None)"
proof -
  define NS :: ns_expressions where "NS = [1 \<mapsto> 0.4, 2 \<mapsto> 0.6]"
  define flux :: "int \<Rightarrow> real" where "flux = (\<lambda>b. if b = 0 then - 10 else 5)"
  define ratios :: "real list" where "ratios = [0.4, 0.6]"
  have t: "(50::int) > 2" by simp
  have earlier: "\<exists>prev. outlet_loop NS flux ratios \<bar>flux 0\<bar> 0 [1] None = Inr prev"
    by (simp add: NS_def flux_def ratios_def loop_body_def outlet_vars_value)
  then obtain prev where e: "outlet_loop NS flux ratios \<bar>flux 0\<bar> 0 [1] None = Inr prev" ..
  have len: "length [1::int] < length ratios" by (simp add: ratios_def)
  have stored: "NS 2 = Some 0.6" by (simp add: NS_def)
  have u: "update (ratios ! length [1::int]) 0.6 \<bar>flux 0\<bar> \<bar>flux 2\<bar> 50 = Inr 0.59"
    by (simp add: ratios_def flux_def update_early spec_linear_law_def Let_def)
  have "temporal_hook NS flux [0] ([1] @ [2]) ratios 50 0 = (NS(2 \<mapsto> 0.59), None)"
    using temporal_hook_last_outlet [OF t e len stored, of "[]" 0] by (simp only: u sum.case)
  then show ?thesis
    unfolding NS_def flux_def ratios_def by simp
qed

end
